theory Spec2Isabelle
  imports Complex_Main "HOL-Library.Word"
begin

section \<open>Values shared by the operations of image.go\<close>

text \<open>
  A Go byte slice and a Go string are both sequences of bytes; an Isabelle \<open>char\<close> is one
  byte. The nil slice and the empty slice are not told apart: the operations only build,
  copy and measure them.
\<close>

type_synonym bytes = "char list"

text \<open>
  Modelled from the spec: \<open>NewError\<close> and the classification \<open>BadRequest\<close> are declared in
  another file of the repository. An error made by \<open>NewError\<close> carries the message and the
  classification it was given; \<open>BadRequest\<close> is the bad-input classification, and every other
  classification is an \<open>OtherCode\<close>.
\<close>

datatype error_code = BadRequest | OtherCode nat

text \<open>
  The Go interface \<open>error\<close>. \<open>Error\<close> is the repository's own error structure,
  \<open>errorString\<close> what \<open>errors.New\<close> returns, \<open>ForeignError\<close> any other error value (of the
  engine or of the runtime) with the text its \<open>Error()\<close> method gives. A nil error is
  \<open>None\<close> in \<open>error option\<close>.
\<close>

datatype error = Error string error_code | errorString string | ForeignError string

definition NewError :: "string \<Rightarrow> error_code \<Rightarrow> error" where
  "NewError err code = Error err code"

definition errors_New :: "string \<Rightarrow> error" where
  "errors_New text = errorString text"

fun error_Error :: "error \<Rightarrow> string" where
  "error_Error (Error message code) = message"
| "error_Error (errorString s) = s"
| "error_Error (ForeignError s) = s"

fun is_bad_input :: "error option \<Rightarrow> bool" where
  "is_bad_input (Some (Error message code)) = (code = BadRequest)"
| "is_bad_input (Some (errorString s)) = False"
| "is_bad_input (Some (ForeignError s)) = False"
| "is_bad_input None = False"

text \<open>
  The value a panic carries, by the three cases the type switch of \<open>Process\<close> tells apart:
  an \<open>error\<close>, a \<open>string\<close>, or a value of any other dynamic type (the number names it).
  A recovered panic value is never nil: since Go 1.21 \<open>panic(nil)\<close> reaches \<open>recover\<close> as a
  \<open>*runtime.PanicNilError\<close>, which is an \<open>error\<close>.
\<close>

datatype panic_value = PanicError error | PanicString string | PanicOther nat

text \<open>A call of a Go function either returns its results or panics.\<close>

datatype 'a outcome = Return 'a | Panic panic_value

record Image =
  Body :: bytes
  Mime :: string

text \<open>The composite literal \<open>Image{}\<close>: every field at its zero value.\<close>

definition Image_zero :: Image where
  "Image_zero = \<lparr>Body = [], Mime = []\<rparr>"

record ImageInfo =
  info_Width :: int
  info_Height :: int
  info_Type :: string
  info_Space :: string
  info_Alpha :: bool
  info_Profile :: bool
  info_Channels :: int
  info_Orientation :: int

section \<open>The options of a request and of the engine\<close>

text \<open>
  Modelled from the spec: \<open>ImageOptions\<close> is declared in another file of the repository; the
  fields are those of the spec's data model, under the names image.go reads them by
  (\<open>o.Width\<close> is \<open>o_Width\<close>). Go's \<open>int\<close> is modelled by \<open>int\<close>: the operations only copy
  these numbers and compare them with zero, so no arithmetic can overflow. The type \<open>'z\<close>
  is the numeric type of the zoom factor and \<open>'r\<close> that of the opacity; image.go copies
  both and compares the factor with its zero value.
\<close>

record ('z, 'r) ImageOptions =
  o_Width :: int
  o_Height :: int
  o_AreaWidth :: int
  o_AreaHeight :: int
  o_Quality :: int
  o_Compression :: int
  o_Rotate :: int
  o_Top :: int
  o_Left :: int
  o_Margin :: int
  o_Factor :: 'z
  o_DPI :: int
  o_TextWidth :: int
  o_Force :: bool
  o_Embed :: bool
  o_NoCrop :: bool
  o_NoReplicate :: bool
  o_NoRotation :: bool
  o_NoProfile :: bool
  o_Flip :: bool
  o_Flop :: bool
  o_Opacity :: 'r
  o_Text :: string
  o_Font :: string
  o_Type :: string
  o_File :: string
  o_URL :: string
  o_Color :: "8 word list"
  o_Extend :: string
  o_Gravity :: string
  o_Colorspace :: string
  o_Background :: "8 word list"

text \<open>
  The engine's structures \<open>bimg.Color\<close>, \<open>bimg.Watermark\<close> and \<open>bimg.Options\<close>, with the
  fields that image.go assigns and those the spec has the mapper copy. \<open>UNKNOWN\<close> is the
  one image type image.go names.
\<close>

datatype bimg_ImageType = UNKNOWN | JPEG | WEBP | PNG | TIFF | MAGICK

record bimg_Color =
  Color_R :: "8 word"
  Color_G :: "8 word"
  Color_B :: "8 word"

record 'r bimg_Watermark =
  wm_Width :: int
  wm_DPI :: int
  wm_Margin :: int
  wm_Opacity :: 'r
  wm_NoReplicate :: bool
  wm_Text :: string
  wm_Font :: string
  wm_Background :: bimg_Color

record ('z, 'r) bimg_Options =
  opts_Height :: int
  opts_Width :: int
  opts_AreaHeight :: int
  opts_AreaWidth :: int
  opts_Top :: int
  opts_Left :: int
  opts_Quality :: int
  opts_Compression :: int
  opts_Zoom :: 'z
  opts_Crop :: bool
  opts_Enlarge :: bool
  opts_Embed :: bool
  opts_Flip :: bool
  opts_Flop :: bool
  opts_Force :: bool
  opts_Extend :: string
  opts_Rotate :: int
  opts_Background :: "8 word list"
  opts_Gravity :: string
  opts_Watermark :: "'r bimg_Watermark"
  opts_Type :: bimg_ImageType
  opts_Interpretation :: string

record bimg_ImageSize =
  Size_Width :: int
  Size_Height :: int

record bimg_ImageMetadata =
  meta_Orientation :: int
  meta_Channels :: int
  meta_Alpha :: bool
  meta_Profile :: bool
  meta_Type :: string
  meta_Space :: string
  meta_Size :: bimg_ImageSize

section \<open>The collaborators of image.go\<close>

text \<open>
  What image.go calls and does not define: the engine's \<open>bimg.Resize\<close> and
  \<open>bimg.Metadata\<close>, which return a result with an error or panic; the lookups
  \<open>bimg.DetermineImageType\<close>, \<open>GetImageMimeType\<close> and \<open>ImageType\<close>; the mapper
  \<open>BimgOptions\<close>; and the string encoder of \<open>encoding/json\<close>. Every theorem below holds for
  all of them.
\<close>

record ('z, 'r) env =
  bimg_Resize :: "bytes \<Rightarrow> ('z, 'r) bimg_Options \<Rightarrow> (bytes \<times> error option) outcome"
  bimg_Metadata :: "bytes \<Rightarrow> (bimg_ImageMetadata \<times> error option) outcome"
  bimg_DetermineImageType :: "bytes \<Rightarrow> bimg_ImageType"
  GetImageMimeType :: "bimg_ImageType \<Rightarrow> string"
  ImageType :: "string \<Rightarrow> bimg_ImageType"
  BimgOptions :: "('z, 'r) ImageOptions \<Rightarrow> ('z, 'r) bimg_Options"
  json_string :: "string \<Rightarrow> bytes"

text \<open>
  Calling the engine is the one effect of an operation. A run of an operation is the list
  of engine calls it made, in order, and how it ended.
\<close>

datatype ('z, 'r) engine_call =
  ResizeCall bytes "('z, 'r) bimg_Options"
| MetadataCall bytes

type_synonym ('z, 'r) run = "('z, 'r) engine_call list \<times> (Image \<times> error option) outcome"

section \<open>Process\<close>

text \<open>
  The body of \<open>Process\<close>, from the call of \<open>bimg.Resize\<close> to the last \<open>return\<close>.
\<close>

definition Process_body :: "('z, 'r) env \<Rightarrow> bytes \<Rightarrow> ('z, 'r) bimg_Options \<Rightarrow> (Image \<times> error option) outcome" where
  "Process_body env buf opts =
     (case bimg_Resize env buf opts of
        Panic r \<Rightarrow> Panic r
      | Return (buf', err) \<Rightarrow>
          (if err \<noteq> None then Return (Image_zero, err)
           else let mime = GetImageMimeType env (bimg_DetermineImageType env buf')
                in Return (\<lparr>Body = buf', Mime = mime\<rparr>, None)))"

text \<open>
  The deferred function of \<open>Process\<close>. Its first argument is what \<open>recover()\<close> returns
  (\<open>None\<close> is nil: no panic is under way), its second the named results \<open>out\<close> and \<open>err\<close>
  as they stand when it runs; it returns them as it leaves them.
\<close>

fun Process_deferred :: "panic_value option \<Rightarrow> Image \<times> error option \<Rightarrow> Image \<times> error option" where
  "Process_deferred None (out, err) = (out, err)"
| "Process_deferred (Some (PanicError v)) (out, err) = (Image_zero, Some v)"
| "Process_deferred (Some (PanicString v)) (out, err) = (Image_zero, Some (errors_New v))"
| "Process_deferred (Some (PanicOther v)) (out, err) =
     (Image_zero, Some (errors_New ''libvips internal error''))"

text \<open>
  \<open>Process\<close>: one call of the engine, then the deferred function. When the body panics
  the named results still hold their zero values, since the assignment of the results of
  \<open>bimg.Resize\<close> never took place; the deferred function recovers, so \<open>Process\<close> returns.
\<close>

definition Process :: "('z, 'r) env \<Rightarrow> bytes \<Rightarrow> ('z, 'r) bimg_Options \<Rightarrow> ('z, 'r) run" where
  "Process env buf opts =
     ([ResizeCall buf opts],
      case Process_body env buf opts of
        Return res \<Rightarrow> Return (Process_deferred None res)
      | Panic r \<Rightarrow> Return (Process_deferred (Some r) (Image_zero, None)))"

section \<open>Info\<close>

text \<open>
  \<open>json.Marshal\<close> on an \<open>ImageInfo\<close>: an object with one member for each field, in the
  order of the declaration, under the name the field's \<open>json\<close> tag gives. Every tag of
  \<open>ImageInfo\<close> is made of characters that \<open>encoding/json\<close> accepts in a name and writes
  as they are. Numbers are written in decimal, booleans as \<open>true\<close> and \<open>false\<close>; strings go
  through the encoder's string quoting, which is a collaborator.
\<close>

definition digit :: "nat \<Rightarrow> char" where
  "digit n = ''0123456789'' ! n"

function nat_decimal :: "nat \<Rightarrow> bytes" where
  "nat_decimal n = (if n < 10 then [digit n] else nat_decimal (n div 10) @ [digit (n mod 10)])"
  by pat_completeness auto
termination
  by (relation "measure id") auto

declare nat_decimal.simps [simp del]

definition json_int :: "int \<Rightarrow> bytes" where
  "json_int i = (if i < 0 then CHR ''-'' # nat_decimal (nat (- i)) else nat_decimal (nat i))"

definition json_bool :: "bool \<Rightarrow> bytes" where
  "json_bool b = (if b then ''true'' else ''false'')"

definition ImageInfo_members :: "(string \<Rightarrow> bytes) \<Rightarrow> ImageInfo \<Rightarrow> (string \<times> bytes) list" where
  "ImageInfo_members quote info =
     [(''Width (in pixels) of image area to extract/resize.'', json_int (info_Width info)),
      (''height'', json_int (info_Height info)),
      (''type'', quote (info_Type info)),
      (''space'', quote (info_Space info)),
      (''hasAlpha'', json_bool (info_Alpha info)),
      (''hasProfile'', json_bool (info_Profile info)),
      (''channels'', json_int (info_Channels info)),
      (''orientation'', json_int (info_Orientation info))]"

definition json_member :: "string \<times> bytes \<Rightarrow> bytes" where
  "json_member m = CHR 0x22 # fst m @ [CHR 0x22, CHR '':''] @ snd m"

fun json_members :: "(string \<times> bytes) list \<Rightarrow> bytes" where
  "json_members [] = []"
| "json_members [m] = json_member m"
| "json_members (m # ms) = json_member m @ CHR '','' # json_members ms"

definition json_Marshal :: "(string \<Rightarrow> bytes) \<Rightarrow> ImageInfo \<Rightarrow> bytes" where
  "json_Marshal quote info = CHR ''{'' # json_members (ImageInfo_members quote info) @ [CHR ''}'']"

text \<open>
  \<open>Info\<close> has no deferred function: a panic of \<open>bimg.Metadata\<close> leaves it as a panic.
  \<open>json.Marshal\<close> cannot fail on an \<open>ImageInfo\<close>, and \<open>Info\<close> drops its error.
\<close>

definition Info :: "('z, 'r) env \<Rightarrow> bytes \<Rightarrow> ('z, 'r) ImageOptions \<Rightarrow> ('z, 'r) run" where
  "Info env buf io =
     ([MetadataCall buf],
      let img = \<lparr>Body = [], Mime = ''application/json''\<rparr> in
      case bimg_Metadata env buf of
        Panic r \<Rightarrow> Panic r
      | Return (meta, err) \<Rightarrow>
          (case err of
             Some e \<Rightarrow>
               Return (img,
                 Some (NewError (''Cannot retrieve image medatata: %s'' @ error_Error e) BadRequest))
           | None \<Rightarrow>
               let info = \<lparr>info_Width = Size_Width (meta_Size meta),
                           info_Height = Size_Height (meta_Size meta),
                           info_Type = meta_Type meta,
                           info_Space = meta_Space meta,
                           info_Alpha = meta_Alpha meta,
                           info_Profile = meta_Profile meta,
                           info_Channels = meta_Channels meta,
                           info_Orientation = meta_Orientation meta\<rparr>;
                   body = json_Marshal (json_string env) info;
                   img = img\<lparr>Body := body\<rparr>
               in Return (img, None)))"

section \<open>The transformations\<close>

text \<open>
  An operation that rejects its options returns before it has called anything: its list
  of engine calls is empty. The options of the request are \<open>io\<close> (\<open>o\<close> in image.go).
\<close>

definition Resize :: "('z::zero, 'r) env \<Rightarrow> bytes \<Rightarrow> ('z, 'r) ImageOptions \<Rightarrow> ('z, 'r) run" where
  "Resize env buf io =
     (if o_Width io = 0 \<and> o_Height io = 0
      then ([], Return (Image_zero,
                  Some (NewError ''Missing required param: height or width'' BadRequest)))
      else let opts = BimgOptions env io;
               opts = opts\<lparr>opts_Embed := True\<rparr>;
               opts = (if o_NoCrop io = False then opts\<lparr>opts_Crop := True\<rparr> else opts)
           in Process env buf opts)"

definition Enlarge :: "('z::zero, 'r) env \<Rightarrow> bytes \<Rightarrow> ('z, 'r) ImageOptions \<Rightarrow> ('z, 'r) run" where
  "Enlarge env buf io =
     (if o_Width io = 0 \<or> o_Height io = 0
      then ([], Return (Image_zero,
                  Some (NewError ''Missing required params: height, width'' BadRequest)))
      else let opts = BimgOptions env io;
               opts = opts\<lparr>opts_Enlarge := True\<rparr>;
               opts = (if o_NoCrop io = False then opts\<lparr>opts_Crop := True\<rparr> else opts)
           in Process env buf opts)"

definition Extract :: "('z::zero, 'r) env \<Rightarrow> bytes \<Rightarrow> ('z, 'r) ImageOptions \<Rightarrow> ('z, 'r) run" where
  "Extract env buf io =
     (if o_AreaWidth io = 0 \<or> o_AreaHeight io = 0
      then ([], Return (Image_zero,
                  Some (NewError ''Missing required params: areawidth or areaheight'' BadRequest)))
      else let opts = BimgOptions env io;
               opts = opts\<lparr>opts_Top := o_Top io\<rparr>;
               opts = opts\<lparr>opts_Left := o_Left io\<rparr>;
               opts = opts\<lparr>opts_AreaWidth := o_AreaWidth io\<rparr>;
               opts = opts\<lparr>opts_AreaHeight := o_AreaHeight io\<rparr>
           in Process env buf opts)"

definition Crop :: "('z::zero, 'r) env \<Rightarrow> bytes \<Rightarrow> ('z, 'r) ImageOptions \<Rightarrow> ('z, 'r) run" where
  "Crop env buf io =
     (if o_Width io = 0 \<and> o_Height io = 0
      then ([], Return (Image_zero,
                  Some (NewError ''Missing required param: height or width'' BadRequest)))
      else let opts = BimgOptions env io;
               opts = opts\<lparr>opts_Crop := True\<rparr>
           in Process env buf opts)"

definition Rotate :: "('z::zero, 'r) env \<Rightarrow> bytes \<Rightarrow> ('z, 'r) ImageOptions \<Rightarrow> ('z, 'r) run" where
  "Rotate env buf io =
     (if o_Rotate io = 0
      then ([], Return (Image_zero, Some (NewError ''Missing required param: rotate'' BadRequest)))
      else let opts = BimgOptions env io
           in Process env buf opts)"

definition Flip :: "('z::zero, 'r) env \<Rightarrow> bytes \<Rightarrow> ('z, 'r) ImageOptions \<Rightarrow> ('z, 'r) run" where
  "Flip env buf io =
     (let opts = BimgOptions env io;
          opts = opts\<lparr>opts_Flip := True\<rparr>
      in Process env buf opts)"

definition Flop :: "('z::zero, 'r) env \<Rightarrow> bytes \<Rightarrow> ('z, 'r) ImageOptions \<Rightarrow> ('z, 'r) run" where
  "Flop env buf io =
     (let opts = BimgOptions env io;
          opts = opts\<lparr>opts_Flop := True\<rparr>
      in Process env buf opts)"

definition Thumbnail :: "('z::zero, 'r) env \<Rightarrow> bytes \<Rightarrow> ('z, 'r) ImageOptions \<Rightarrow> ('z, 'r) run" where
  "Thumbnail env buf io =
     (if o_Width io = 0 \<and> o_Height io = 0
      then ([], Return (Image_zero,
                  Some (NewError ''Missing required params: width or height'' BadRequest)))
      else Process env buf (BimgOptions env io))"

text \<open>
  \<open>Zoom\<close> builds the engine options before its second check; building them calls nothing.
  The extraction rectangle and the crop flag are set inside the block guarded by
  \<open>o.Top > 0 || o.Left > 0\<close>, the zoom factor after it.
\<close>

definition Zoom :: "('z::zero, 'r) env \<Rightarrow> bytes \<Rightarrow> ('z, 'r) ImageOptions \<Rightarrow> ('z, 'r) run" where
  "Zoom env buf io =
     (if o_Factor io = 0
      then ([], Return (Image_zero, Some (NewError ''Missing required param: factor'' BadRequest)))
      else let opts = BimgOptions env io in
        if (o_Top io > 0 \<or> o_Left io > 0) \<and> (o_AreaWidth io = 0 \<and> o_AreaHeight io = 0)
        then ([], Return (Image_zero,
                    Some (NewError ''Missing required params: areawidth, areaheight'' BadRequest)))
        else let opts =
                   (if o_Top io > 0 \<or> o_Left io > 0
                    then let opts = opts\<lparr>opts_Top := o_Top io\<rparr>;
                             opts = opts\<lparr>opts_Left := o_Left io\<rparr>;
                             opts = opts\<lparr>opts_AreaWidth := o_AreaWidth io\<rparr>;
                             opts = opts\<lparr>opts_AreaHeight := o_AreaHeight io\<rparr>
                         in (if o_NoCrop io = False then opts\<lparr>opts_Crop := True\<rparr> else opts)
                    else opts);
                 opts = opts\<lparr>opts_Zoom := o_Factor io\<rparr>
             in Process env buf opts)"

definition Convert :: "('z::zero, 'r) env \<Rightarrow> bytes \<Rightarrow> ('z, 'r) ImageOptions \<Rightarrow> ('z, 'r) run" where
  "Convert env buf io =
     (if o_Type io = []
      then ([], Return (Image_zero, Some (NewError ''Missing required param: type'' BadRequest)))
      else if ImageType env (o_Type io) = UNKNOWN
      then ([], Return (Image_zero,
                  Some (NewError (''Invalid image type: '' @ o_Type io) BadRequest)))
      else let opts = BimgOptions env io
           in Process env buf opts)"

text \<open>
  \<open>Watermark\<close> assigns seven fields of the watermark structure inside the mapped options,
  and the background only under the guard \<open>len(o.Color) > 2\<close>, which keeps the three
  index expressions in range.
\<close>

definition Watermark :: "('z::zero, 'r) env \<Rightarrow> bytes \<Rightarrow> ('z, 'r) ImageOptions \<Rightarrow> ('z, 'r) run" where
  "Watermark env buf io =
     (if o_Text io = []
      then ([], Return (Image_zero, Some (NewError ''Missing required param: text'' BadRequest)))
      else let opts = BimgOptions env io;
               opts = opts\<lparr>opts_Watermark := (opts_Watermark opts)\<lparr>wm_DPI := o_DPI io\<rparr>\<rparr>;
               opts = opts\<lparr>opts_Watermark := (opts_Watermark opts)\<lparr>wm_Text := o_Text io\<rparr>\<rparr>;
               opts = opts\<lparr>opts_Watermark := (opts_Watermark opts)\<lparr>wm_Font := o_Font io\<rparr>\<rparr>;
               opts = opts\<lparr>opts_Watermark := (opts_Watermark opts)\<lparr>wm_Margin := o_Margin io\<rparr>\<rparr>;
               opts = opts\<lparr>opts_Watermark := (opts_Watermark opts)\<lparr>wm_Width := o_TextWidth io\<rparr>\<rparr>;
               opts = opts\<lparr>opts_Watermark := (opts_Watermark opts)\<lparr>wm_Opacity := o_Opacity io\<rparr>\<rparr>;
               opts = opts\<lparr>opts_Watermark :=
                             (opts_Watermark opts)\<lparr>wm_NoReplicate := o_NoReplicate io\<rparr>\<rparr>;
               opts = (if length (o_Color io) > 2
                       then opts\<lparr>opts_Watermark := (opts_Watermark opts)\<lparr>wm_Background :=
                              \<lparr>Color_R = o_Color io ! 0, Color_G = o_Color io ! 1,
                               Color_B = o_Color io ! 2\<rparr>\<rparr>\<rparr>
                       else opts)
           in Process env buf opts)"

text \<open>An \<open>Operation\<close> is a function value with the signature of the above; \<open>Run\<close> calls it.\<close>

definition Run :: "(bytes \<Rightarrow> ('z, 'r) ImageOptions \<Rightarrow> ('z, 'r) run) \<Rightarrow> bytes \<Rightarrow> ('z, 'r) ImageOptions \<Rightarrow> ('z, 'r) run" where
  "Run operation buf opts = operation buf opts"

section \<open>A sample environment\<close>

text \<open>
  Modelled from the spec: the mapper \<open>BimgOptions\<close> is declared in another file of the
  repository. The spec has it copy, field for field, the dimensions, quality, compression,
  rotate, flip, flop, force, extend, background, colorspace and gravity, and map the
  requested type; every other field of the engine options is left at its zero value.
  The theorems take the mapper as a collaborator; this definition serves the sample
  environment.
\<close>

definition Watermark_zero :: "('r::zero) bimg_Watermark" where
  "Watermark_zero =
     \<lparr>wm_Width = 0, wm_DPI = 0, wm_Margin = 0, wm_Opacity = 0, wm_NoReplicate = False,
      wm_Text = [], wm_Font = [],
      wm_Background = \<lparr>Color_R = 0, Color_G = 0, Color_B = 0\<rparr>\<rparr>"

definition spec_BimgOptions :: "(string \<Rightarrow> bimg_ImageType) \<Rightarrow> ('z::zero, 'r::zero) ImageOptions \<Rightarrow> ('z, 'r) bimg_Options" where
  "spec_BimgOptions imageType io =
     \<lparr>opts_Height = o_Height io, opts_Width = o_Width io,
      opts_AreaHeight = 0, opts_AreaWidth = 0, opts_Top = 0, opts_Left = 0,
      opts_Quality = o_Quality io, opts_Compression = o_Compression io,
      opts_Zoom = 0, opts_Crop = False, opts_Enlarge = False, opts_Embed = False,
      opts_Flip = o_Flip io, opts_Flop = o_Flop io, opts_Force = o_Force io,
      opts_Extend = o_Extend io, opts_Rotate = o_Rotate io,
      opts_Background = o_Background io, opts_Gravity = o_Gravity io,
      opts_Watermark = Watermark_zero, opts_Type = imageType (o_Type io),
      opts_Interpretation = o_Colorspace io\<rparr>"

text \<open>
  Sample collaborators, to run the operations on concrete requests. The sample engine
  panics on an empty buffer, fails on a buffer whose type it cannot tell, and otherwise
  returns the buffer; \<open>panicking_Resize\<close> is an engine that panics with a given value on
  every call; the sample string encoder quotes without escaping, as
  \<open>encoding/json\<close> does on a text with nothing to escape.
\<close>

definition sample_DetermineImageType :: "bytes \<Rightarrow> bimg_ImageType" where
  "sample_DetermineImageType buf =
     (if take 4 buf = [CHR 0x89, CHR ''P'', CHR ''N'', CHR ''G''] then PNG
      else if take 2 buf = [CHR 0xFF, CHR 0xD8] then JPEG
      else UNKNOWN)"

definition sample_GetImageMimeType :: "bimg_ImageType \<Rightarrow> string" where
  "sample_GetImageMimeType code =
     (if code = PNG then ''image/png''
      else if code = WEBP then ''image/webp''
      else ''image/jpeg'')"

definition sample_ImageType :: "string \<Rightarrow> bimg_ImageType" where
  "sample_ImageType name =
     (if name = ''jpeg'' then JPEG
      else if name = ''png'' then PNG
      else if name = ''webp'' then WEBP
      else UNKNOWN)"

definition sample_Resize :: "bytes \<Rightarrow> (int, real) bimg_Options \<Rightarrow> (bytes \<times> error option) outcome" where
  "sample_Resize buf opts =
     (if buf = [] then Panic (PanicString ''empty buffer'')
      else if sample_DetermineImageType buf = UNKNOWN
      then Return ([], Some (errorString ''Unsupported image format''))
      else Return (buf, None))"


definition sample_Metadata :: "bytes \<Rightarrow> (bimg_ImageMetadata \<times> error option) outcome" where
  "sample_Metadata buf =
     (if sample_DetermineImageType buf = UNKNOWN
      then Return (\<lparr>meta_Orientation = 0, meta_Channels = 0, meta_Alpha = False,
                    meta_Profile = False, meta_Type = [], meta_Space = [],
                    meta_Size = \<lparr>Size_Width = 0, Size_Height = 0\<rparr>\<rparr>,
                   Some (errorString ''Unsupported image format''))
      else Return (\<lparr>meta_Orientation = 1, meta_Channels = 3, meta_Alpha = False,
                    meta_Profile = True, meta_Type = ''jpeg'', meta_Space = ''srgb'',
                    meta_Size = \<lparr>Size_Width = 640, Size_Height = 480\<rparr>\<rparr>,
                   None))"

definition sample_json_string :: "string \<Rightarrow> bytes" where
  "sample_json_string s = CHR 0x22 # s @ [CHR 0x22]"

definition sample_env :: "(int, real) env" where
  "sample_env =
     \<lparr>bimg_Resize = sample_Resize,
      bimg_Metadata = sample_Metadata,
      bimg_DetermineImageType = sample_DetermineImageType,
      GetImageMimeType = sample_GetImageMimeType,
      ImageType = sample_ImageType,
      BimgOptions = spec_BimgOptions sample_ImageType,
      json_string = sample_json_string\<rparr>"

text \<open>The request with nothing asked for, and two buffers: a JPEG header and plain text.\<close>

definition no_options :: "(int, real) ImageOptions" where
  "no_options =
     \<lparr>o_Width = 0, o_Height = 0, o_AreaWidth = 0, o_AreaHeight = 0, o_Quality = 0,
      o_Compression = 0, o_Rotate = 0, o_Top = 0, o_Left = 0, o_Margin = 0, o_Factor = 0,
      o_DPI = 0, o_TextWidth = 0, o_Force = False, o_Embed = False, o_NoCrop = False,
      o_NoReplicate = False, o_NoRotation = False, o_NoProfile = False, o_Flip = False,
      o_Flop = False, o_Opacity = 0, o_Text = [], o_Font = [], o_Type = [], o_File = [],
      o_URL = [], o_Color = [], o_Extend = [], o_Gravity = [], o_Colorspace = [],
      o_Background = []\<rparr>"

definition jpeg_buffer :: bytes where
  "jpeg_buffer = [CHR 0xFF, CHR 0xD8, CHR 0xFF, CHR 0xE0]"

definition text_buffer :: bytes where
  "text_buffer = ''not an image''"

text \<open>
  What a run says about a rejected request: nothing was called, and the operation
  returned a bad-input error.
\<close>

fun rejected_before_engine :: "('z, 'r) run \<Rightarrow> bool" where
  "rejected_before_engine (calls, Return (img, err)) = (calls = [] \<and> is_bad_input err)"
| "rejected_before_engine (calls, Panic r) = False"

section \<open>The gateway\<close>

lemma Process_calls: "fst (Process env buf opts) = [ResizeCall buf opts]"
  by (simp add: Process_def)

lemma Process_returns: "\<exists>img err. snd (Process env buf opts) = Return (img, err)"
proof (cases "Process_body env buf opts")
  case (Return res)
  then show ?thesis by (cases res) (simp add: Process_def)
next
  case (Panic r)
  then show ?thesis by (cases r) (simp_all add: Process_def)
qed

lemma Process_error_empty_image:
  assumes "snd (Process env buf opts) = Return (img, Some e)"
  shows "img = Image_zero"
proof (cases "bimg_Resize env buf opts")
  case (Return res)
  with assms show ?thesis
    by (cases res) (auto simp add: Process_def Process_body_def Let_def split: if_splits)
next
  case (Panic r)
  with assms show ?thesis
    by (cases r) (simp_all add: Process_def Process_body_def)
qed



text \<open>
  C3. When the engine's resize call succeeds, the \<open>Image\<close> that \<open>Process\<close> returns has
  the engine's buffer as its \<open>Body\<close>, and its \<open>Mime\<close> is the MIME type of the image type
  detected in that very buffer; the options, and so the requested type, play no part.
\<close>

theorem Process_mime_from_output:
  "bimg_Resize env buf opts = Return (res, None) \<Longrightarrow>
     \<exists>img. snd (Process env buf opts) = Return (img, None) \<and> Body img = res \<and>
       Mime img = GetImageMimeType env (bimg_DetermineImageType env (Body img))"
  by (simp add: Process_def Process_body_def)

theorem Process_mime_from_output_witness:
  "bimg_Resize sample_env jpeg_buffer (BimgOptions sample_env (no_options\<lparr>o_Type := ''png''\<rparr>)) =
     Return (jpeg_buffer, None) \<and>
   snd (Process sample_env jpeg_buffer (BimgOptions sample_env (no_options\<lparr>o_Type := ''png''\<rparr>))) =
     Return (\<lparr>Body = jpeg_buffer, Mime = ''image/jpeg''\<rparr>, None)"
  using Process_mime_from_output
    [of sample_env jpeg_buffer "BimgOptions sample_env (no_options\<lparr>o_Type := ''png''\<rparr>)" jpeg_buffer]
  by (simp add: sample_env_def sample_Resize_def sample_DetermineImageType_def
      sample_GetImageMimeType_def jpeg_buffer_def Process_def Process_body_def)

section \<open>Validation of the request\<close>

lemma Process_not_rejected: "\<not> rejected_before_engine (Process env buf opts)"
  using Process_calls [of env buf opts]
  by (cases "Process env buf opts" rule: rejected_before_engine.cases) auto

lemma rejected_bad_request: "is_bad_input (Some (NewError msg BadRequest))"
  by (simp add: NewError_def)

text \<open>
  C4, as the code has it. \<open>Resize\<close>, \<open>Crop\<close> and \<open>Thumbnail\<close> return a bad-input error
  without calling the engine exactly when width and height are both zero, and \<open>Enlarge\<close>
  exactly when width or height is zero: the tests compare with zero, not with the sign.
  For a width and a height that are not negative this is exactly the failure of
  "width > 0 or height > 0" (for \<open>Enlarge\<close>, of "width > 0 and height > 0"); in particular
  width 0 with height 0 is always a bad-input error.
\<close>

theorem dimension_checks_test_for_zero:
  "(rejected_before_engine (Resize env buf io) \<longleftrightarrow> o_Width io = 0 \<and> o_Height io = 0) \<and>
   (rejected_before_engine (Crop env buf io) \<longleftrightarrow> o_Width io = 0 \<and> o_Height io = 0) \<and>
   (rejected_before_engine (Thumbnail env buf io) \<longleftrightarrow> o_Width io = 0 \<and> o_Height io = 0) \<and>
   (rejected_before_engine (Enlarge env buf io) \<longleftrightarrow> o_Width io = 0 \<or> o_Height io = 0) \<and>
   (0 \<le> o_Width io \<and> 0 \<le> o_Height io \<longrightarrow>
      (rejected_before_engine (Resize env buf io) \<longleftrightarrow> \<not> (o_Width io > 0 \<or> o_Height io > 0)) \<and>
      (rejected_before_engine (Crop env buf io) \<longleftrightarrow> \<not> (o_Width io > 0 \<or> o_Height io > 0)) \<and>
      (rejected_before_engine (Thumbnail env buf io) \<longleftrightarrow> \<not> (o_Width io > 0 \<or> o_Height io > 0)) \<and>
      (rejected_before_engine (Enlarge env buf io) \<longleftrightarrow> \<not> (o_Width io > 0 \<and> o_Height io > 0)))"
proof -
  have r: "rejected_before_engine (Resize env buf io) \<longleftrightarrow> o_Width io = 0 \<and> o_Height io = 0"
    by (simp add: Resize_def Let_def Process_not_rejected rejected_bad_request)
  have c: "rejected_before_engine (Crop env buf io) \<longleftrightarrow> o_Width io = 0 \<and> o_Height io = 0"
    by (simp add: Crop_def Let_def Process_not_rejected rejected_bad_request)
  have t: "rejected_before_engine (Thumbnail env buf io) \<longleftrightarrow> o_Width io = 0 \<and> o_Height io = 0"
    by (simp add: Thumbnail_def Process_not_rejected rejected_bad_request)
  have e: "rejected_before_engine (Enlarge env buf io) \<longleftrightarrow> o_Width io = 0 \<or> o_Height io = 0"
    by (simp add: Enlarge_def Let_def Process_not_rejected rejected_bad_request)
  show ?thesis unfolding r c t e by auto
qed

theorem dimension_checks_test_for_zero_witness:
  "0 \<le> o_Width (no_options\<lparr>o_Width := 100\<rparr>) \<and> 0 \<le> o_Height (no_options\<lparr>o_Width := 100\<rparr>) \<and>
   \<not> rejected_before_engine (Resize sample_env jpeg_buffer (no_options\<lparr>o_Width := 100\<rparr>)) \<and>
   \<not> rejected_before_engine (Crop sample_env jpeg_buffer (no_options\<lparr>o_Width := 100\<rparr>)) \<and>
   \<not> rejected_before_engine (Thumbnail sample_env jpeg_buffer (no_options\<lparr>o_Width := 100\<rparr>)) \<and>
   rejected_before_engine (Enlarge sample_env jpeg_buffer (no_options\<lparr>o_Width := 100\<rparr>)) \<and>
   rejected_before_engine (Resize sample_env jpeg_buffer no_options)"
  using dimension_checks_test_for_zero [where env = sample_env and buf = jpeg_buffer and io = "no_options\<lparr>o_Width := 100\<rparr>"]
    dimension_checks_test_for_zero [where env = sample_env and buf = jpeg_buffer and io = no_options]
  by (simp add: no_options_def)

text \<open>
  C4, as the specification words it, fails on a negative dimension: with width -1 and height 0
  the condition "width > 0 or height > 0" fails, yet \<open>Resize\<close> goes on to the engine.
\<close>

theorem Resize_negative_width_counterexample:
  "\<not> (rejected_before_engine (Resize sample_env jpeg_buffer (no_options\<lparr>o_Width := - 1\<rparr>)) \<longleftrightarrow>
      \<not> (o_Width (no_options\<lparr>o_Width := - 1\<rparr>) > 0 \<or> o_Height (no_options\<lparr>o_Width := - 1\<rparr>) > 0))"
  by (simp add: Resize_def no_options_def Process_not_rejected)

text \<open>
  C5. \<open>Zoom\<close> with factor 0 returns the bad-input error for the factor whatever the other
  fields are. With a factor other than 0, with top > 0 or left > 0, and with areaWidth and
  areaHeight both 0, it returns the bad-input error for the extraction rectangle. With
  neither top > 0 nor left > 0 a factor other than 0 passes validation, whatever the
  rectangle: the gateway is called with the mapped options and the zoom factor. Those
  two rejections are the only ones.
\<close>

theorem Zoom_validation:
  "(o_Factor io = 0 \<longrightarrow>
      Zoom env buf io =
        ([], Return (Image_zero, Some (NewError ''Missing required param: factor'' BadRequest)))) \<and>
   (o_Factor io \<noteq> 0 \<and> (o_Top io > 0 \<or> o_Left io > 0) \<and> o_AreaWidth io = 0 \<and> o_AreaHeight io = 0 \<longrightarrow>
      Zoom env buf io =
        ([], Return (Image_zero,
               Some (NewError ''Missing required params: areawidth, areaheight'' BadRequest)))) \<and>
   (o_Factor io \<noteq> 0 \<and> \<not> (o_Top io > 0 \<or> o_Left io > 0) \<longrightarrow>
      Zoom env buf io = Process env buf ((BimgOptions env io)\<lparr>opts_Zoom := o_Factor io\<rparr>)) \<and>
   (rejected_before_engine (Zoom env buf io) \<longleftrightarrow>
      o_Factor io = 0 \<or> ((o_Top io > 0 \<or> o_Left io > 0) \<and> o_AreaWidth io = 0 \<and> o_AreaHeight io = 0))"
  by (simp add: Zoom_def Let_def Process_not_rejected rejected_bad_request)

theorem Zoom_validation_witness:
  "Zoom sample_env jpeg_buffer (no_options\<lparr>o_Width := 10, o_Top := 5, o_AreaWidth := 7\<rparr>) =
     ([], Return (Image_zero, Some (NewError ''Missing required param: factor'' BadRequest))) \<and>
   Zoom sample_env jpeg_buffer (no_options\<lparr>o_Factor := 2, o_Top := 5\<rparr>) =
     ([], Return (Image_zero,
            Some (NewError ''Missing required params: areawidth, areaheight'' BadRequest))) \<and>
   Zoom sample_env jpeg_buffer (no_options\<lparr>o_Factor := 2\<rparr>) =
     Process sample_env jpeg_buffer
       ((BimgOptions sample_env (no_options\<lparr>o_Factor := 2\<rparr>))\<lparr>opts_Zoom := 2\<rparr>) \<and>
   \<not> rejected_before_engine (Zoom sample_env jpeg_buffer (no_options\<lparr>o_Factor := 2\<rparr>))"
  using Zoom_validation [where env = sample_env and buf = jpeg_buffer and io = "no_options\<lparr>o_Width := 10, o_Top := 5, o_AreaWidth := 7\<rparr>"]
    Zoom_validation [where env = sample_env and buf = jpeg_buffer and io = "no_options\<lparr>o_Factor := 2, o_Top := 5\<rparr>"]
    Zoom_validation [where env = sample_env and buf = jpeg_buffer and io = "no_options\<lparr>o_Factor := 2\<rparr>"]
  by (simp add: no_options_def Process_not_rejected)

text \<open>
  C6. \<open>Convert\<close> with the empty type returns the bad-input error "Missing required param:
  type"; with a type that is not empty and that \<open>ImageType\<close> does not recognise it
  returns the bad-input error "Invalid image type: " followed by the type. The two errors
  differ, and in both cases nothing is called: the run is not a run of the gateway.
\<close>

theorem Convert_validation:
  "(o_Type io = [] \<longrightarrow>
      Convert env buf io =
        ([], Return (Image_zero, Some (NewError ''Missing required param: type'' BadRequest)))) \<and>
   (o_Type io \<noteq> [] \<and> ImageType env (o_Type io) = UNKNOWN \<longrightarrow>
      Convert env buf io =
        ([], Return (Image_zero,
               Some (NewError (''Invalid image type: '' @ o_Type io) BadRequest)))) \<and>
   (o_Type io = [] \<or> ImageType env (o_Type io) = UNKNOWN \<longrightarrow>
      rejected_before_engine (Convert env buf io) \<and>
      (\<forall>b opts. Convert env buf io \<noteq> Process env b opts)) \<and>
   NewError ''Missing required param: type'' BadRequest \<noteq>
     NewError (''Invalid image type: '' @ o_Type io) BadRequest"
proof -
  have "\<And>b opts. fst (Process env b opts) \<noteq> []" by (simp add: Process_calls)
  then have "\<And>b opts r. ([], r) \<noteq> Process env b opts" by (metis fst_conv)
  then show ?thesis by (simp add: Convert_def rejected_bad_request NewError_def)
qed

theorem Convert_validation_witness:
  "Convert sample_env jpeg_buffer no_options =
     ([], Return (Image_zero, Some (NewError ''Missing required param: type'' BadRequest))) \<and>
   Convert sample_env jpeg_buffer (no_options\<lparr>o_Type := ''bmp''\<rparr>) =
     ([], Return (Image_zero, Some (NewError ''Invalid image type: bmp'' BadRequest)))"
  using Convert_validation [where env = sample_env and buf = jpeg_buffer and io = no_options]
    Convert_validation [where env = sample_env and buf = jpeg_buffer and io = "no_options\<lparr>o_Type := ''bmp''\<rparr>"]
  by (simp add: no_options_def sample_env_def sample_ImageType_def)

text \<open>
  C10. \<open>Rotate\<close> returns a bad-input error, without calling the engine, exactly when the
  rotate option is 0. For every other value, a multiple of 90 or not, it calls the
  gateway with the mapped options as they are: no test on the angle is made.
\<close>

theorem Rotate_rejects_only_zero:
  "(rejected_before_engine (Rotate env buf io) \<longleftrightarrow> o_Rotate io = 0) \<and>
   (o_Rotate io = 0 \<longrightarrow>
      Rotate env buf io =
        ([], Return (Image_zero, Some (NewError ''Missing required param: rotate'' BadRequest)))) \<and>
   (o_Rotate io \<noteq> 0 \<longrightarrow> Rotate env buf io = Process env buf (BimgOptions env io))"
  by (simp add: Rotate_def Process_not_rejected rejected_bad_request)

theorem Rotate_rejects_only_zero_witness:
  "o_Rotate (no_options\<lparr>o_Rotate := 45\<rparr>) \<noteq> 0 \<and> \<not> 90 dvd o_Rotate (no_options\<lparr>o_Rotate := 45\<rparr>) \<and>
   \<not> rejected_before_engine (Rotate sample_env jpeg_buffer (no_options\<lparr>o_Rotate := 45\<rparr>)) \<and>
   Rotate sample_env jpeg_buffer (no_options\<lparr>o_Rotate := 45\<rparr>) =
     Process sample_env jpeg_buffer (BimgOptions sample_env (no_options\<lparr>o_Rotate := 45\<rparr>)) \<and>
   opts_Rotate (BimgOptions sample_env (no_options\<lparr>o_Rotate := 45\<rparr>)) = 45 \<and>
   Rotate sample_env jpeg_buffer no_options =
     ([], Return (Image_zero, Some (NewError ''Missing required param: rotate'' BadRequest)))"
  using Rotate_rejects_only_zero [where env = sample_env and buf = jpeg_buffer and io = "no_options\<lparr>o_Rotate := 45\<rparr>"]
    Rotate_rejects_only_zero [where env = sample_env and buf = jpeg_buffer and io = no_options]
  by (simp add: no_options_def sample_env_def spec_BimgOptions_def Process_not_rejected)

section \<open>The options handed to the gateway\<close>

text \<open>
  C7. \<open>Watermark\<close> with the empty text returns the bad-input error for the text whatever
  the other fields are. Otherwise it calls the gateway with the mapped options in which
  the watermark structure has the text, font, margin, dpi, width (from textWidth),
  opacity and noReplicate of the request; the background of the watermark is made of the
  first three components of the color when the color has at least three, and is the
  mapped one, untouched, when it has fewer. Nothing outside the watermark structure
  changes.
\<close>

theorem Watermark_options:
  "(o_Text io = [] \<longrightarrow>
      Watermark env buf io =
        ([], Return (Image_zero, Some (NewError ''Missing required param: text'' BadRequest)))) \<and>
   (o_Text io \<noteq> [] \<longrightarrow>
      (\<exists>opts. Watermark env buf io = Process env buf opts \<and>
         wm_Text (opts_Watermark opts) = o_Text io \<and>
         wm_Font (opts_Watermark opts) = o_Font io \<and>
         wm_Margin (opts_Watermark opts) = o_Margin io \<and>
         wm_DPI (opts_Watermark opts) = o_DPI io \<and>
         wm_Width (opts_Watermark opts) = o_TextWidth io \<and>
         wm_Opacity (opts_Watermark opts) = o_Opacity io \<and>
         wm_NoReplicate (opts_Watermark opts) = o_NoReplicate io \<and>
         (3 \<le> length (o_Color io) \<longrightarrow>
            wm_Background (opts_Watermark opts) =
              \<lparr>Color_R = o_Color io ! 0, Color_G = o_Color io ! 1, Color_B = o_Color io ! 2\<rparr>) \<and>
         (length (o_Color io) < 3 \<longrightarrow>
            wm_Background (opts_Watermark opts) =
              wm_Background (opts_Watermark (BimgOptions env io))) \<and>
         opts\<lparr>opts_Watermark := opts_Watermark (BimgOptions env io)\<rparr> = BimgOptions env io))"
proof (cases "o_Text io = []")
  case True
  then show ?thesis by (simp add: Watermark_def)
next
  case False
  let ?m = "BimgOptions env io"
  let ?w = "(opts_Watermark ?m)\<lparr>wm_DPI := o_DPI io, wm_Text := o_Text io, wm_Font := o_Font io,
    wm_Margin := o_Margin io, wm_Width := o_TextWidth io, wm_Opacity := o_Opacity io,
    wm_NoReplicate := o_NoReplicate io\<rparr>"
  show ?thesis
  proof (cases "length (o_Color io) > 2")
    case True
    let ?c = "\<lparr>Color_R = o_Color io ! 0, Color_G = o_Color io ! 1, Color_B = o_Color io ! 2\<rparr>"
    have "Watermark env buf io = Process env buf (?m\<lparr>opts_Watermark := ?w\<lparr>wm_Background := ?c\<rparr>\<rparr>)"
      using False True by (simp add: Watermark_def Let_def)
    with False True show ?thesis
      by (intro conjI impI exI [of _ "?m\<lparr>opts_Watermark := ?w\<lparr>wm_Background := ?c\<rparr>\<rparr>"]) simp_all
  next
    case short: False
    have "Watermark env buf io = Process env buf (?m\<lparr>opts_Watermark := ?w\<rparr>)"
      using False short by (simp add: Watermark_def Let_def)
    with False short show ?thesis
      by (intro conjI impI exI [of _ "?m\<lparr>opts_Watermark := ?w\<rparr>"]) simp_all
  qed
qed

theorem Watermark_options_witness:
  "Watermark sample_env jpeg_buffer (no_options\<lparr>o_Font := ''sans'', o_Color := [255, 200, 150]\<rparr>) =
     ([], Return (Image_zero, Some (NewError ''Missing required param: text'' BadRequest))) \<and>
   Watermark sample_env jpeg_buffer (no_options\<lparr>o_Text := ''hello'', o_Color := [255, 200, 150, 7]\<rparr>) =
     Process sample_env jpeg_buffer
       ((BimgOptions sample_env (no_options\<lparr>o_Text := ''hello'', o_Color := [255, 200, 150, 7]\<rparr>))
          \<lparr>opts_Watermark := Watermark_zero\<lparr>wm_Text := ''hello'',
              wm_Background := \<lparr>Color_R = 255, Color_G = 200, Color_B = 150\<rparr>\<rparr>\<rparr>) \<and>
   Watermark sample_env jpeg_buffer (no_options\<lparr>o_Text := ''hello'', o_Color := [255, 200]\<rparr>) =
     Process sample_env jpeg_buffer
       ((BimgOptions sample_env (no_options\<lparr>o_Text := ''hello'', o_Color := [255, 200]\<rparr>))
          \<lparr>opts_Watermark := Watermark_zero\<lparr>wm_Text := ''hello''\<rparr>\<rparr>)"
  using Watermark_options [where env = sample_env and buf = jpeg_buffer
      and io = "no_options\<lparr>o_Font := ''sans'', o_Color := [255, 200, 150]\<rparr>"]
    Watermark_options [where env = sample_env and buf = jpeg_buffer
      and io = "no_options\<lparr>o_Text := ''hello'', o_Color := [255, 200, 150, 7]\<rparr>"]
    Watermark_options [where env = sample_env and buf = jpeg_buffer
      and io = "no_options\<lparr>o_Text := ''hello'', o_Color := [255, 200]\<rparr>"]
  by (simp add: no_options_def sample_env_def spec_BimgOptions_def Watermark_zero_def
      Watermark_def Let_def)

text \<open>
  C8, as the code has it. A \<open>Resize\<close> or an \<open>Enlarge\<close> that passes its validation calls
  the gateway with crop set to true unless noCrop was requested, in which case crop keeps
  its mapped value; \<open>Resize\<close> sets embed and \<open>Enlarge\<close> sets enlarge, and every other
  option is the mapped one. A \<open>Zoom\<close> that passes its validation sets the zoom factor,
  and sets crop to true unless noCrop was requested only when top > 0 or left > 0, where
  it also copies the extraction rectangle of the request; otherwise crop keeps its mapped
  value. Every other option of \<open>Zoom\<close> is the mapped one.
\<close>

theorem crop_policy:
  "(\<not> (o_Width io = 0 \<and> o_Height io = 0) \<longrightarrow>
      (\<exists>opts. Resize env buf io = Process env buf opts \<and> opts_Embed opts \<and>
         (\<not> o_NoCrop io \<longrightarrow> opts_Crop opts) \<and>
         (o_NoCrop io \<longrightarrow> opts_Crop opts = opts_Crop (BimgOptions env io)) \<and>
         opts = (BimgOptions env io)
           \<lparr>opts_Embed := True,
            opts_Crop := (if o_NoCrop io then opts_Crop (BimgOptions env io) else True)\<rparr>)) \<and>
   (\<not> (o_Width io = 0 \<or> o_Height io = 0) \<longrightarrow>
      (\<exists>opts. Enlarge env buf io = Process env buf opts \<and> opts_Enlarge opts \<and>
         (\<not> o_NoCrop io \<longrightarrow> opts_Crop opts) \<and>
         (o_NoCrop io \<longrightarrow> opts_Crop opts = opts_Crop (BimgOptions env io)) \<and>
         opts = (BimgOptions env io)
           \<lparr>opts_Enlarge := True,
            opts_Crop := (if o_NoCrop io then opts_Crop (BimgOptions env io) else True)\<rparr>)) \<and>
   (\<not> rejected_before_engine (Zoom env buf io) \<longrightarrow>
      (\<exists>opts. Zoom env buf io = Process env buf opts \<and> opts_Zoom opts = o_Factor io \<and>
         ((o_Top io > 0 \<or> o_Left io > 0) \<and> \<not> o_NoCrop io \<longrightarrow> opts_Crop opts) \<and>
         (\<not> (o_Top io > 0 \<or> o_Left io > 0) \<or> o_NoCrop io \<longrightarrow>
            opts_Crop opts = opts_Crop (BimgOptions env io)) \<and>
         opts =
           (if o_Top io > 0 \<or> o_Left io > 0
            then (BimgOptions env io)
              \<lparr>opts_Top := o_Top io, opts_Left := o_Left io,
               opts_AreaWidth := o_AreaWidth io, opts_AreaHeight := o_AreaHeight io,
               opts_Crop := (if o_NoCrop io then opts_Crop (BimgOptions env io) else True),
               opts_Zoom := o_Factor io\<rparr>
            else (BimgOptions env io)\<lparr>opts_Zoom := o_Factor io\<rparr>)))"
proof (intro conjI impI)
  assume "\<not> (o_Width io = 0 \<and> o_Height io = 0)"
  then show "\<exists>opts. Resize env buf io = Process env buf opts \<and> opts_Embed opts \<and>
         (\<not> o_NoCrop io \<longrightarrow> opts_Crop opts) \<and>
         (o_NoCrop io \<longrightarrow> opts_Crop opts = opts_Crop (BimgOptions env io)) \<and>
         opts = (BimgOptions env io)
           \<lparr>opts_Embed := True,
            opts_Crop := (if o_NoCrop io then opts_Crop (BimgOptions env io) else True)\<rparr>"
    by (cases "o_NoCrop io") (auto simp add: Resize_def Let_def)
next
  assume "\<not> (o_Width io = 0 \<or> o_Height io = 0)"
  then show "\<exists>opts. Enlarge env buf io = Process env buf opts \<and> opts_Enlarge opts \<and>
         (\<not> o_NoCrop io \<longrightarrow> opts_Crop opts) \<and>
         (o_NoCrop io \<longrightarrow> opts_Crop opts = opts_Crop (BimgOptions env io)) \<and>
         opts = (BimgOptions env io)
           \<lparr>opts_Enlarge := True,
            opts_Crop := (if o_NoCrop io then opts_Crop (BimgOptions env io) else True)\<rparr>"
    by (cases "o_NoCrop io") (auto simp add: Enlarge_def Let_def)
next
  assume a: "\<not> rejected_before_engine (Zoom env buf io)"
  have f: "o_Factor io \<noteq> 0"
    using a by (auto simp add: Zoom_def rejected_bad_request)
  have r: "\<not> ((o_Top io > 0 \<or> o_Left io > 0) \<and> o_AreaWidth io = 0 \<and> o_AreaHeight io = 0)"
    using a f by (auto simp add: Zoom_def Let_def rejected_bad_request)
  show "\<exists>opts. Zoom env buf io = Process env buf opts \<and> opts_Zoom opts = o_Factor io \<and>
         ((o_Top io > 0 \<or> o_Left io > 0) \<and> \<not> o_NoCrop io \<longrightarrow> opts_Crop opts) \<and>
         (\<not> (o_Top io > 0 \<or> o_Left io > 0) \<or> o_NoCrop io \<longrightarrow>
            opts_Crop opts = opts_Crop (BimgOptions env io)) \<and>
         opts =
           (if o_Top io > 0 \<or> o_Left io > 0
            then (BimgOptions env io)
              \<lparr>opts_Top := o_Top io, opts_Left := o_Left io,
               opts_AreaWidth := o_AreaWidth io, opts_AreaHeight := o_AreaHeight io,
               opts_Crop := (if o_NoCrop io then opts_Crop (BimgOptions env io) else True),
               opts_Zoom := o_Factor io\<rparr>
            else (BimgOptions env io)\<lparr>opts_Zoom := o_Factor io\<rparr>)"
  proof (cases "o_Top io > 0 \<or> o_Left io > 0")
    case True
    with f r show ?thesis
      by (cases "o_NoCrop io") (auto simp add: Zoom_def Let_def)
  next
    case False
    with f show ?thesis
      by (auto simp add: Zoom_def Let_def)
  qed
qed

theorem crop_policy_witness:
  "Resize sample_env jpeg_buffer (no_options\<lparr>o_Width := 100\<rparr>) =
     Process sample_env jpeg_buffer
       ((BimgOptions sample_env (no_options\<lparr>o_Width := 100\<rparr>))\<lparr>opts_Crop := True, opts_Embed := True\<rparr>) \<and>
   Enlarge sample_env jpeg_buffer (no_options\<lparr>o_Width := 100, o_Height := 80, o_NoCrop := True\<rparr>) =
     Process sample_env jpeg_buffer
       ((BimgOptions sample_env (no_options\<lparr>o_Width := 100, o_Height := 80, o_NoCrop := True\<rparr>))
          \<lparr>opts_Enlarge := True\<rparr>) \<and>
   Zoom sample_env jpeg_buffer (no_options\<lparr>o_Factor := 2, o_Top := 5, o_AreaWidth := 30\<rparr>) =
     Process sample_env jpeg_buffer
       ((BimgOptions sample_env (no_options\<lparr>o_Factor := 2, o_Top := 5, o_AreaWidth := 30\<rparr>))
          \<lparr>opts_Top := 5, opts_AreaWidth := 30, opts_Crop := True, opts_Zoom := 2\<rparr>)"
  using crop_policy [where env = sample_env and buf = jpeg_buffer and io = "no_options\<lparr>o_Width := 100\<rparr>"]
    crop_policy [where env = sample_env and buf = jpeg_buffer
      and io = "no_options\<lparr>o_Width := 100, o_Height := 80, o_NoCrop := True\<rparr>"]
    crop_policy [where env = sample_env and buf = jpeg_buffer
      and io = "no_options\<lparr>o_Factor := 2, o_Top := 5, o_AreaWidth := 30\<rparr>"]
  by (simp add: no_options_def sample_env_def spec_BimgOptions_def Resize_def Enlarge_def Zoom_def Let_def)

text \<open>
  C8, as the specification words it, fails for \<open>Zoom\<close> without an extraction offset: with factor
  2, top 0, left 0 and noCrop not requested the request passes validation, and the
  options handed to the engine have crop false, as the mapper of the spec left it.
\<close>

theorem Zoom_without_rectangle_counterexample:
  "\<not> rejected_before_engine (Zoom sample_env jpeg_buffer (no_options\<lparr>o_Factor := 2\<rparr>)) \<and>
   \<not> o_NoCrop (no_options\<lparr>o_Factor := 2\<rparr>) \<and>
   fst (Zoom sample_env jpeg_buffer (no_options\<lparr>o_Factor := 2\<rparr>)) =
     [ResizeCall jpeg_buffer ((BimgOptions sample_env (no_options\<lparr>o_Factor := 2\<rparr>))\<lparr>opts_Zoom := 2\<rparr>)] \<and>
   \<not> opts_Crop ((BimgOptions sample_env (no_options\<lparr>o_Factor := 2\<rparr>))\<lparr>opts_Zoom := 2\<rparr>)"
  by (simp add: Zoom_def Let_def no_options_def Process_not_rejected Process_calls
      sample_env_def spec_BimgOptions_def)

section \<open>The image returned with an error\<close>

lemma transformation_error_empty_image:
  assumes "operation \<in> {Resize env, Enlarge env, Extract env, Crop env, Rotate env, Flip env,
      Flop env, Thumbnail env, Zoom env, Convert env, Watermark env}"
    and "snd (operation buf io) = Return (img, Some e)"
  shows "img = Image_zero"
  using assms
  by (auto simp add: Resize_def Enlarge_def Extract_def Crop_def Rotate_def Flip_def Flop_def
      Thumbnail_def Zoom_def Convert_def Watermark_def Let_def
      dest: Process_error_empty_image split: if_splits)

lemma Info_error_keeps_mime:
  assumes "snd (Info env buf io) = Return (img, Some e)"
  shows "img = \<lparr>Body = [], Mime = ''application/json''\<rparr>"
proof (cases "bimg_Metadata env buf")
  case (Return res)
  with assms show ?thesis
    by (cases res) (auto simp add: Info_def Let_def split: option.splits)
next
  case (Panic r)
  with assms show ?thesis by (simp add: Info_def)
qed

text \<open>
  C2. Every operation that returns a non-nil error should return the empty \<open>Image\<close> with
  it. The eleven transformations do (\<open>transformation_error_empty_image\<close>). \<open>Info\<close> does
  not: on a buffer whose metadata the engine cannot read it returns its error together
  with an \<open>Image\<close> whose \<open>Mime\<close> is "application/json".
\<close>

theorem Info_error_image_not_empty:
  "Info sample_env text_buffer no_options =
     ([MetadataCall text_buffer],
      Return (\<lparr>Body = [], Mime = ''application/json''\<rparr>,
        Some (NewError ''Cannot retrieve image medatata: %sUnsupported image format'' BadRequest))) \<and>
   \<lparr>Body = [], Mime = ''application/json''\<rparr> \<noteq> Image_zero"
  by (simp add: Info_def sample_env_def sample_Metadata_def sample_DetermineImageType_def
      text_buffer_def Image_zero_def)

section \<open>The document of Info\<close>

lemma Info_success:
  assumes "bimg_Metadata env buf = Return (meta, None)"
  shows "\<exists>img. snd (Info env buf io) = Return (img, None) \<and> Mime img = ''application/json'' \<and>
    Body img = json_Marshal (json_string env)
      \<lparr>info_Width = Size_Width (meta_Size meta), info_Height = Size_Height (meta_Size meta),
       info_Type = meta_Type meta, info_Space = meta_Space meta, info_Alpha = meta_Alpha meta,
       info_Profile = meta_Profile meta, info_Channels = meta_Channels meta,
       info_Orientation = meta_Orientation meta\<rparr>"
  using assms by (simp add: Info_def)

lemma ImageInfo_member_names:
  "map fst (ImageInfo_members quote info) =
     [''Width (in pixels) of image area to extract/resize.'', ''height'', ''type'', ''space'',
      ''hasAlpha'', ''hasProfile'', ''channels'', ''orientation'']"
  by (simp add: ImageInfo_members_def)

text \<open>
  C9. On a buffer whose metadata the engine reports, \<open>Info\<close> should return the JSON
  content type and the JSON document of the metadata with each field under its name:
  width, height, type, space, hasAlpha, hasProfile, channels, orientation. It returns the
  content type and such a document, but the width is not under "width": the tag of the
  field is "Width (in pixels) of image area to extract/resize.", and that is the name of
  the member. Here on an image 640 wide and 480 high.
\<close>

theorem Info_width_member_name:
  "snd (Info sample_env jpeg_buffer no_options) =
     Return (\<lparr>Body = ''{'' @ sample_json_string ''Width (in pixels) of image area to extract/resize.''
                  @ '':640,'' @ sample_json_string ''height'' @ '':480,''
                  @ sample_json_string ''type'' @ '':'' @ sample_json_string ''jpeg'' @ '',''
                  @ sample_json_string ''space'' @ '':'' @ sample_json_string ''srgb'' @ '',''
                  @ sample_json_string ''hasAlpha'' @ '':false,''
                  @ sample_json_string ''hasProfile'' @ '':true,''
                  @ sample_json_string ''channels'' @ '':3,''
                  @ sample_json_string ''orientation'' @ '':1}'',
              Mime = ''application/json''\<rparr>, None) \<and>
   ''width'' \<notin> set (map fst (ImageInfo_members sample_json_string
      \<lparr>info_Width = 640, info_Height = 480, info_Type = ''jpeg'', info_Space = ''srgb'',
       info_Alpha = False, info_Profile = True, info_Channels = 3, info_Orientation = 1\<rparr>))"
  by (simp add: Info_def sample_env_def sample_Metadata_def sample_DetermineImageType_def
      jpeg_buffer_def json_Marshal_def ImageInfo_members_def json_member_def json_int_def
      json_bool_def nat_decimal.simps digit_def sample_json_string_def)

end
